theory Spec2Isabelle
  imports Complex_Main "HOL-Library.AList"
begin

section \<open>Data model\<close>

text \<open>
  The repository is a Python SDK driving a local browser host over a loopback HTTP/JSON
  channel. The model follows the four source modules the properties live in:
  \<^verbatim>\<open>http_client.py\<close> (class HttpClient), \<^verbatim>\<open>store.py\<close> (class StoreManager),
  \<^verbatim>\<open>browser.py\<close> (class BrowserSession) and \<^verbatim>\<open>utils.py\<close> (the string matchers),
  plus \<^verbatim>\<open>ZiniaoClient.update_core\<close> of \<^verbatim>\<open>client.py\<close>.

  Python exceptions are values of a sum type (\<open>Inl\<close> is the raised exception), mutable
  object state is passed explicitly, and everything outside the process (the HTTP peer,
  the uuid generator, the DrissionPage browser, the clock) is an oracle in a record
  \<open>world\<close> that the functions read at an index they advance themselves.
\<close>

subsection \<open>Requests and responses (\<^verbatim>\<open>types.py\<close>)\<close>

text \<open>
  A request is the Python dict \<^verbatim>\<open>data: Dict[str, Any]\<close>: an association list from key
  to value. \<open>PDumps s\<close> stands for the string \<^verbatim>\<open>json.dumps(s)\<close>.
\<close>

datatype param = PInt int | PStr string | PBool bool | PDumps string

type_synonym request = "(string \<times> param) list"


definition dict_update :: "request \<Rightarrow> request \<Rightarrow> request" where
  "dict_update data other = foldl (\<lambda>d (k, v). AList.update k v d) data other"

text \<open>
  \<^verbatim>\<open>class Store(TypedDict, total=False)\<close>: every key may be absent; a key that is
  present holds a string, as the class declares.
\<close>

record store =
  browserOauth :: "string option"
  browserName :: "string option"
  browserId :: "string option"

text \<open>
  The response dict, with the keys the code reads (\<^verbatim>\<open>BrowserStartResult\<close>,
  \<^verbatim>\<open>BrowserListResult\<close>, \<^verbatim>\<open>HttpResponse\<close>); \<open>None\<close> is an absent key. The
  message is \<^verbatim>\<open>Optional[str]\<close>: the key may be absent (\<open>None\<close>), present with the
  value null (\<open>Some None\<close>) or present with a string.
\<close>

record response =
  statusCode :: "int option"
  message :: "string option option"
  browserList :: "store list option"
  debuggingPort :: "int option"
  resp_browserOauth :: "string option"
  ipDetectionPage :: "string option"
  launcherPage :: "string option"

text \<open>
  What \<^verbatim>\<open>json.loads(response.text)\<close> can return: \<^verbatim>\<open>None\<close>, a dict, or a value of
  another JSON type (list, number, string, boolean), of which only its truthiness is
  observed.
\<close>

datatype json_value = JNull | JDict response | JOther bool

subsection \<open>Exceptions (\<^verbatim>\<open>exceptions.py\<close>)\<close>

text \<open>
  The messages of the source are Chinese text; each distinct message or operation name is
  a constructor here. \<open>CommunicationError\<close> carries the place that raised it.
\<close>

datatype comm_site = ConnectFailed | JsonParseFailed | UnknownFailed | LoopFellThrough

datatype zin_msg =
    SessionClosedMsg | BrowserNotInitialised | ConnectBrowserFailed
  | LauncherUrlEmpty | OpenLauncherFailed

datatype operation = OpGet | OpGetList | OpOpen | OpClose

datatype op_message = MsgHttpNone | MsgOauthEmpty | MsgUnknown | MsgServer string

datatype error =
    AuthenticationError
  | ZiniaoTimeoutError
  | CommunicationError comm_site
  | StoreNotFoundError string
  | MultipleStoresFoundError string nat "string list"
  | StoreOperationError operation string "int option" "op_message option"
  | ZiniaoError zin_msg
  | ClientNotStartedError
  | CoreUpdateError
  | UnsupportedVersionError
  | AttributeError
  | IndexError
  | ValueError
  | OverflowError
  | LibraryError   \<comment> \<open>an exception raised inside DrissionPage\<close>

section \<open>Transport client (\<^verbatim>\<open>http_client.py\<close>)\<close>

text \<open>
  A Python float: a finite value, or one of the three that are not numbers of seconds.
\<close>

datatype pyfloat = Finite rat | NaN | PosInf | NegInf

record http_client =
  port :: int
  timeout :: int
  max_retries :: int
  retry_delay :: pyfloat

text \<open>
  \<^verbatim>\<open>time.sleep(t)\<close> first converts \<open>t\<close> to the platform's time type and then rejects a
  negative length: NaN and a negative length raise ValueError, an infinite one or a
  finite one beyond the length \<open>cap\<close> the platform can hold raises OverflowError.
  \<open>None\<close>: the call sleeps and returns.
\<close>

definition time_sleep :: "rat \<Rightarrow> pyfloat \<Rightarrow> error option" where
  "time_sleep cap t =
     (case t of
        NaN \<Rightarrow> Some ValueError
      | PosInf \<Rightarrow> Some OverflowError
      | NegInf \<Rightarrow> Some OverflowError
      | Finite q \<Rightarrow>
          if \<bar>q\<bar> > cap then Some OverflowError
          else if q < 0 then Some ValueError
          else None)"

text \<open>
  One delivery attempt, \<^verbatim>\<open>requests.post\<close> followed by \<^verbatim>\<open>json.loads\<close>, ends in one of:
\<close>

datatype post_outcome =
    PostTimeout            \<comment> \<open>\<^verbatim>\<open>requests.Timeout\<close>\<close>
  | PostConnectionError    \<comment> \<open>\<^verbatim>\<open>requests.ConnectionError\<close>\<close>
  | PostOtherError         \<comment> \<open>any other exception of \<^verbatim>\<open>requests.post\<close>\<close>
  | BadJSON                \<comment> \<open>\<^verbatim>\<open>json.JSONDecodeError\<close>\<close>
  | Parsed json_value

text \<open>What is raised inside the \<^verbatim>\<open>try\<close> block of \<^verbatim>\<open>send_request\<close>.\<close>

datatype exc =
    Timeout | ConnectionError | JSONDecodeError | OtherException
  | Raised error

text \<open>What the process does to the outside, in order.\<close>

datatype event = Post request | Sleep pyfloat

text \<open>
  \<^verbatim>\<open>status_code = result.get("statusCode") if result else None\<close>. A falsy result gives
  \<^verbatim>\<open>None\<close>; a truthy value that is not a dict has no \<^verbatim>\<open>get\<close>. For a dict both branches
  agree (an empty dict has no \<^verbatim>\<open>statusCode\<close>), so its truthiness is not recorded.
\<close>

definition status_code_of :: "json_value \<Rightarrow> exc + int option" where
  "status_code_of result =
     (case result of
        JNull \<Rightarrow> Inr None
      | JDict d \<Rightarrow> Inr (statusCode d)
      | JOther truthy \<Rightarrow> if truthy then Inl (Raised AttributeError) else Inr None)"

datatype step = Continue | Return json_value

text \<open>
  The body of the \<^verbatim>\<open>try\<close> block (lines 84-116), after the attempt's outcome is known.
  The sleep before \<^verbatim>\<open>continue\<close> is inside the \<^verbatim>\<open>try\<close>: what it raises goes to the
  \<^verbatim>\<open>except\<close> clauses.
\<close>

definition try_body ::
  "rat \<Rightarrow> http_client \<Rightarrow> bool \<Rightarrow> int \<Rightarrow> post_outcome \<Rightarrow> exc + step" where
  "try_body cap c retry_on_none attempt out =
     (case out of
        PostTimeout \<Rightarrow> Inl Timeout
      | PostConnectionError \<Rightarrow> Inl ConnectionError
      | PostOtherError \<Rightarrow> Inl OtherException
      | BadJSON \<Rightarrow> Inl JSONDecodeError
      | Parsed result \<Rightarrow>
          if result = JNull \<and> retry_on_none \<and> attempt < max_retries c
          then (case time_sleep cap (retry_delay c) of
                  Some e \<Rightarrow> Inl (Raised e)
                | None \<Rightarrow> Inr Continue)
          else (case status_code_of result of
                  Inl e \<Rightarrow> Inl e
                | Inr status_code \<Rightarrow>
                    if status_code = Some (- 10003) then Inl (Raised AuthenticationError)
                    else Inr (Return result)))"

datatype handled = Retry | Raise error

text \<open>
  The \<^verbatim>\<open>except\<close> clauses (lines 118-172), in the source's order; the last one is
  \<^verbatim>\<open>except Exception\<close>, which takes every exception the first three do not. \<open>Retry\<close>
  stands for the clause's \<^verbatim>\<open>time.sleep(self.retry_delay); continue\<close>: that sleep runs
  inside the clause, so what it raises leaves \<^verbatim>\<open>send_request\<close>.
\<close>

definition except_clauses :: "http_client \<Rightarrow> int \<Rightarrow> exc \<Rightarrow> handled" where
  "except_clauses c attempt e =
     (case e of
        Timeout \<Rightarrow>
          if attempt < max_retries c then Retry else Raise ZiniaoTimeoutError
      | ConnectionError \<Rightarrow>
          if attempt < max_retries c then Retry else Raise (CommunicationError ConnectFailed)
      | JSONDecodeError \<Rightarrow> Raise (CommunicationError JsonParseFailed)
      | _ \<Rightarrow>
          if attempt < max_retries c then Retry else Raise (CommunicationError UnknownFailed))"

text \<open>
  \<^verbatim>\<open>for attempt in range(self.max_retries + 1)\<close>, over the list of attempt numbers still
  to run. \<open>env attempt\<close> is the outcome of this call's attempt number \<open>attempt\<close>; the same
  \<open>data\<close> is serialised and posted on every attempt; \<open>cap\<close> is the longest sleep the
  platform accepts. The result comes with the events of the call. After the loop:
  lines 175-181.
\<close>

fun for_attempts ::
  "rat \<Rightarrow> http_client \<Rightarrow> (nat \<Rightarrow> post_outcome) \<Rightarrow> request \<Rightarrow> bool \<Rightarrow> nat list
     \<Rightarrow> exc option \<Rightarrow> (error + json_value) \<times> event list" where
  "for_attempts cap c env data retry_on_none [] last_exception =
     (case last_exception of
        Some e \<Rightarrow> (Inl (CommunicationError LoopFellThrough), [])
      | None \<Rightarrow> (Inr JNull, []))"
| "for_attempts cap c env data retry_on_none (attempt # rest) last_exception =
     (case try_body cap c retry_on_none (int attempt) (env attempt) of
        Inr Continue \<Rightarrow>
          (let (r, tr) = for_attempts cap c env data retry_on_none rest last_exception
           in (r, Post data # Sleep (retry_delay c) # tr))
      | Inr (Return result) \<Rightarrow> (Inr result, [Post data])
      | Inl e \<Rightarrow>
          (case except_clauses c (int attempt) e of
             Retry \<Rightarrow>
               (case time_sleep cap (retry_delay c) of
                  Some err \<Rightarrow> (Inl err, [Post data])
                | None \<Rightarrow>
                    (let (r, tr) = for_attempts cap c env data retry_on_none rest (Some e)
                     in (r, Post data # Sleep (retry_delay c) # tr)))
           | Raise err \<Rightarrow> (Inl err, [Post data])))"

definition send_request ::
  "rat \<Rightarrow> http_client \<Rightarrow> (nat \<Rightarrow> post_outcome) \<Rightarrow> request \<Rightarrow> bool
     \<Rightarrow> (error + json_value) \<times> event list" where
  "send_request cap c env data retry_on_none =
     for_attempts cap c env data retry_on_none [0..<nat (max_retries c + 1)] None"

text \<open>The requests posted, and the number of delivery attempts, of a run.\<close>

fun posts :: "event list \<Rightarrow> request list" where
  "posts [] = []"
| "posts (Post d # tr) = d # posts tr"
| "posts (Sleep t # tr) = posts tr"

definition attempts_made :: "event list \<Rightarrow> nat" where
  "attempts_made tr = length (posts tr)"


section \<open>The outside world\<close>

datatype chromium = Chromium "int option"

datatype ele_outcome = EleFound | EleNone | EleRaises

text \<open>
  The oracles. \<open>post_result k\<close> is the outcome of the \<open>k\<close>-th POST the process makes,
  \<open>uuid4 k\<close> the \<open>k\<close>-th value of \<^verbatim>\<open>str(uuid.uuid4())\<close>, \<open>clock k\<close> the \<open>k\<close>-th reading of
  \<^verbatim>\<open>time.time()\<close>, \<open>float_sub a b\<close> the double that \<^verbatim>\<open>a - b\<close> gives on two doubles, and
  \<open>sleep_limit\<close> the longest sleep the platform accepts. \<open>unicode_lower\<close>,
  \<open>unicode_isdigit\<close> and \<open>unicode_len\<close> are \<^verbatim>\<open>str.lower\<close>, \<^verbatim>\<open>str.isdigit\<close> and \<^verbatim>\<open>len\<close> on
  text that is not pure ASCII. The others describe DrissionPage: whether
  \<^verbatim>\<open>Chromium(port)\<close> connects, the tabs of a browser, whether \<^verbatim>\<open>tab.get(url)\<close> returns
  (or raises), and what waiting for the success button on the page at \<open>url\<close> gives.
\<close>

record world =
  post_result :: "nat \<Rightarrow> post_outcome"
  uuid4 :: "nat \<Rightarrow> string"
  clock :: "nat \<Rightarrow> rat"
  float_sub :: "rat \<Rightarrow> rat \<Rightarrow> rat"
  sleep_limit :: rat
  unicode_lower :: "string \<Rightarrow> string"
  unicode_isdigit :: "string \<Rightarrow> bool"
  unicode_len :: "string \<Rightarrow> nat"
  chromium_connects :: "int option \<Rightarrow> bool"
  latest_tab :: "chromium \<Rightarrow> nat"
  tabs :: "chromium \<Rightarrow> nat list"
  tab_get :: "nat \<Rightarrow> string \<Rightarrow> bool"
  tab_ele :: "nat \<Rightarrow> string \<Rightarrow> ele_outcome"

section \<open>String matching (\<^verbatim>\<open>utils.py\<close>)\<close>

text \<open>
  A Python string is the list of the bytes of its UTF-8 encoding. On pure ASCII text
  \<^verbatim>\<open>str.lower\<close> maps the letters A-Z to a-z and leaves every other character as it is,
  \<^verbatim>\<open>str.isdigit\<close> asks for at least one character and only the digits 0-9, and \<^verbatim>\<open>len\<close>
  counts the bytes. On any other text the three depend on the Unicode tables of the
  interpreter and are taken from the world. Equality and \<^verbatim>\<open>in\<close> on strings are equality
  and containment of the encodings.
\<close>

definition is_ascii :: "string \<Rightarrow> bool" where
  "is_ascii text = list_all (\<lambda>ch. (of_char ch :: nat) < 128) text"

definition lower_char :: "char \<Rightarrow> char" where
  "lower_char ch =
     (let n = (of_char ch :: nat) in if 65 \<le> n \<and> n \<le> 90 then char_of (n + 32) else ch)"

definition lower :: "world \<Rightarrow> string \<Rightarrow> string" where
  "lower w text = (if is_ascii text then map lower_char text else unicode_lower w text)"

definition isdigit :: "world \<Rightarrow> string \<Rightarrow> bool" where
  "isdigit w text =
     (if is_ascii text
      then text \<noteq> [] \<and> list_all (\<lambda>ch. 48 \<le> (of_char ch :: nat) \<and> (of_char ch :: nat) \<le> 57) text
      else unicode_isdigit w text)"

definition py_len :: "world \<Rightarrow> string \<Rightarrow> nat" where
  "py_len w text = (if is_ascii text then length text else unicode_len w text)"

fun startswith :: "string \<Rightarrow> string \<Rightarrow> bool" where
  "startswith text [] = True"
| "startswith [] (p # ps) = False"
| "startswith (t # ts) (p # ps) = (t = p \<and> startswith ts ps)"

text \<open>\<^verbatim>\<open>pattern in text\<close>: the pattern starts at some position of the text.\<close>

fun py_in :: "string \<Rightarrow> string \<Rightarrow> bool" where
  "py_in pattern [] = (pattern = [])"
| "py_in pattern (t # ts) = (startswith (t # ts) pattern \<or> py_in pattern ts)"

definition fuzzy_match :: "world \<Rightarrow> string \<Rightarrow> string \<Rightarrow> bool \<Rightarrow> bool" where
  "fuzzy_match w text pattern case_sensitive =
     (if \<not> case_sensitive then py_in (lower w pattern) (lower w text) else py_in pattern text)"

definition exact_match :: "world \<Rightarrow> string \<Rightarrow> string \<Rightarrow> bool \<Rightarrow> bool" where
  "exact_match w text pattern case_sensitive =
     (if \<not> case_sensitive then lower w text = lower w pattern else text = pattern)"

section \<open>Session handle (\<^verbatim>\<open>browser.py\<close>)\<close>

text \<open>
  \<^verbatim>\<open>class BrowserSession\<close>. The close callback is a closure over the object that made the
  session; it runs on that object's state \<open>'w\<close> and may raise.
\<close>

record 'w browser_session =
  session_port :: "int option"
  store_id :: string
  store_name :: string
  ip_check_url :: "string option"
  launcher_page :: "string option"
  close_callback :: "(string \<Rightarrow> 'w \<Rightarrow> (error + unit) \<times> 'w) option"
  browser_obj :: "chromium option"
  closed :: bool

text \<open>\<^verbatim>\<open>__init__\<close>: connecting to the debugging port may fail.\<close>

definition new_session ::
  "world \<Rightarrow> int option \<Rightarrow> string \<Rightarrow> string \<Rightarrow> string option \<Rightarrow> string option
     \<Rightarrow> (string \<Rightarrow> 'w \<Rightarrow> (error + unit) \<times> 'w) option \<Rightarrow> error + 'w browser_session" where
  "new_session w p sid sname ip_url launcher cb =
     (if chromium_connects w p
      then Inr \<lparr>session_port = p, store_id = sid, store_name = sname, ip_check_url = ip_url,
                launcher_page = launcher, close_callback = cb,
                browser_obj = Some (Chromium p), closed = False\<rparr>
      else Inl (ZiniaoError ConnectBrowserFailed))"

text \<open>The property \<^verbatim>\<open>browser\<close>.\<close>

definition browser :: "'w browser_session \<Rightarrow> error + chromium" where
  "browser s =
     (if closed s then Inl (ZiniaoError SessionClosedMsg)
      else (case browser_obj s of
              None \<Rightarrow> Inl (ZiniaoError BrowserNotInitialised)
            | Some b \<Rightarrow> Inr b))"

definition get_tab :: "world \<Rightarrow> 'w browser_session \<Rightarrow> int \<Rightarrow> error + nat" where
  "get_tab w s index =
     (if index = - 1
      then (case browser s of Inl e \<Rightarrow> Inl e | Inr b \<Rightarrow> Inr (latest_tab w b))
      else (case browser s of
              Inl e \<Rightarrow> Inl e
            | Inr b \<Rightarrow>
                if 0 \<le> index \<and> index < int (length (tabs w b))
                then Inr (tabs w b ! nat index) else Inl IndexError))"

text \<open>Python's \<^verbatim>\<open>a or b\<close> on optional strings, and the truth value of one.\<close>

definition truthy :: "string option \<Rightarrow> bool" where
  "truthy x = (case x of None \<Rightarrow> False | Some t \<Rightarrow> t \<noteq> [])"

definition py_or :: "string option \<Rightarrow> string option \<Rightarrow> string option" where
  "py_or a b = (if truthy a then a else b)"

text \<open>
  \<^verbatim>\<open>check_ip\<close>: with no URL it returns \<^verbatim>\<open>True\<close> at once; otherwise everything runs inside
  \<^verbatim>\<open>try ... except Exception: return False\<close>.
\<close>

definition check_ip :: "world \<Rightarrow> 'w browser_session \<Rightarrow> string option \<Rightarrow> error + bool" where
  "check_ip w s ip_url =
     (case py_or ip_url (ip_check_url s) of
        None \<Rightarrow> Inr True
      | Some url \<Rightarrow>
          if url = [] then Inr True
          else (case get_tab w s (- 1) of
                  Inl e \<Rightarrow> Inr False
                | Inr tab \<Rightarrow>
                    if \<not> tab_get w tab url then Inr False
                    else (case tab_ele w tab url of
                            EleFound \<Rightarrow> Inr True
                          | EleNone \<Rightarrow> Inr False
                          | EleRaises \<Rightarrow> Inr False)))"

text \<open>
  \<^verbatim>\<open>open_launcher_page\<close>: any failure inside the \<^verbatim>\<open>try\<close> is re-raised as ZiniaoError.
  The \<^verbatim>\<open>time.sleep\<close> after the navigation, here and in \<^verbatim>\<open>navigate\<close>, only delays.
\<close>

definition open_launcher_page ::
  "world \<Rightarrow> 'w browser_session \<Rightarrow> string option \<Rightarrow> error + unit" where
  "open_launcher_page w s launcher =
     (case py_or launcher (launcher_page s) of
        None \<Rightarrow> Inl (ZiniaoError LauncherUrlEmpty)
      | Some url \<Rightarrow>
          if url = [] then Inl (ZiniaoError LauncherUrlEmpty)
          else (case get_tab w s (- 1) of
                  Inl e \<Rightarrow> Inl (ZiniaoError OpenLauncherFailed)
                | Inr tab \<Rightarrow>
                    if tab_get w tab url then Inr ()
                    else Inl (ZiniaoError OpenLauncherFailed)))"

definition navigate :: "world \<Rightarrow> 'w browser_session \<Rightarrow> string \<Rightarrow> error + unit" where
  "navigate w s url =
     (case get_tab w s (- 1) of
        Inl e \<Rightarrow> Inl e
      | Inr tab \<Rightarrow> if tab_get w tab url then Inr () else Inl LibraryError)"

text \<open>
  \<^verbatim>\<open>close\<close> (lines 201-221). The callback runs inside \<^verbatim>\<open>try ... except Exception\<close>, which
  only logs. The result is what \<^verbatim>\<open>close\<close> raises or returns, the session afterwards and
  the state the callback ran on.
\<close>

definition close :: "'w browser_session \<Rightarrow> 'w \<Rightarrow> (error + unit) \<times> 'w browser_session \<times> 'w" where
  "close s st =
     (if closed s then (Inr (), s, st)
      else
        (let st' = (case close_callback s of
                      None \<Rightarrow> st
                    | Some cb \<Rightarrow> (case cb (store_id s) st of
                                   (Inr u, st1) \<Rightarrow> st1
                                 | (Inl e, st1) \<Rightarrow> st1))
         in (Inr (), s\<lparr>closed := True, browser_obj := None\<rparr>, st')))"

definition is_closed :: "'w browser_session \<Rightarrow> bool" where
  "is_closed s = closed s"

text \<open>
  A callback that also counts how often it is called: the state is paired with the
  number of invocations so far.
\<close>

definition counting ::
  "(string \<Rightarrow> 'w \<Rightarrow> (error + unit) \<times> 'w) \<Rightarrow> string \<Rightarrow> nat \<times> 'w \<Rightarrow> (error + unit) \<times> nat \<times> 'w" where
  "counting cb sid = (\<lambda>(n, st). case cb sid st of (r, st') \<Rightarrow> (r, Suc n, st'))"

section \<open>Resource manager (\<^verbatim>\<open>store.py\<close>)\<close>

text \<open>
  \<^verbatim>\<open>class StoreManager\<close>: its HTTP client, the user info merged into every request and
  the listing cache. With the object travel the numbers of POSTs made, uuids drawn and
  clock readings taken so far (the indices into the oracles) and the events so far.
\<close>

record store_manager =
  http :: http_client
  user_info :: request
  store_list_cache :: "store list option"
  posts_made :: nat
  uuids_drawn :: nat
  clock_reads :: nat
  trace :: "event list"

text \<open>\<^verbatim>\<open>self.http_client.send_request(data, retry_on_none)\<close> from inside the manager.\<close>

definition http_send ::
  "world \<Rightarrow> store_manager \<Rightarrow> request \<Rightarrow> bool \<Rightarrow> (error + json_value) \<times> store_manager" where
  "http_send w m data retry_on_none =
     (case send_request (sleep_limit w) (http m) (\<lambda>i. post_result w (posts_made m + i))
             data retry_on_none of
        (r, tr) \<Rightarrow>
          (r, m\<lparr>posts_made := posts_made m + attempts_made tr, trace := trace m @ tr\<rparr>))"

text \<open>\<^verbatim>\<open>str(uuid.uuid4())\<close>.\<close>

definition new_uuid :: "world \<Rightarrow> store_manager \<Rightarrow> string \<times> store_manager" where
  "new_uuid w m = (uuid4 w (uuids_drawn m), m\<lparr>uuids_drawn := Suc (uuids_drawn m)\<rparr>)"

text \<open>
  \<^verbatim>\<open>result.get("message", "...")\<close>, as the \<^verbatim>\<open>message\<close> argument of StoreOperationError:
  the default text when the key is absent, \<^verbatim>\<open>None\<close> when it is present with null.
\<close>

definition error_message :: "response \<Rightarrow> op_message option" where
  "error_message d =
     (case message d of
        None \<Rightarrow> Some MsgUnknown
      | Some None \<Rightarrow> None
      | Some (Some t) \<Rightarrow> Some (MsgServer t))"

text \<open>\<^verbatim>\<open>get_store_list\<close> (lines 49-102).\<close>

definition get_store_list ::
  "world \<Rightarrow> store_manager \<Rightarrow> bool \<Rightarrow> (error + store list) \<times> store_manager" where
  "get_store_list w m use_cache =
     (case (use_cache, store_list_cache m) of
        (True, Some cached) \<Rightarrow> (Inr cached, m)
      | _ \<Rightarrow>
        (case new_uuid w m of
           (request_id, m1) \<Rightarrow>
             (let data = dict_update
                           [(''action'', PStr ''getBrowserList''), (''requestId'', PStr request_id)]
                           (user_info m1)
              in case http_send w m1 data False of
                   (Inl e, m2) \<Rightarrow> (Inl e, m2)
                 | (Inr JNull, m2) \<Rightarrow>
                     (Inl (StoreOperationError OpGet ''all'' None (Some MsgHttpNone)), m2)
                 | (Inr (JOther t), m2) \<Rightarrow> (Inl AttributeError, m2)
                 | (Inr (JDict result), m2) \<Rightarrow>
                     if statusCode result = Some 0
                     then (let browser_list =
                                 (case browserList result of None \<Rightarrow> [] | Some l \<Rightarrow> l)
                           in (Inr browser_list, m2\<lparr>store_list_cache := Some browser_list\<rparr>))
                     else (Inl (StoreOperationError OpGetList ''all'' (statusCode result)
                                  (error_message result)), m2))))"

text \<open>\<^verbatim>\<open>store.get("browserName", "")\<close>.\<close>

definition get_browserName :: "store \<Rightarrow> string" where
  "get_browserName s = (case browserName s of None \<Rightarrow> [] | Some n \<Rightarrow> n)"

text \<open>
  The loop of \<^verbatim>\<open>find_stores_by_name\<close> (lines 128-138): \<open>matched_stores\<close> is the list
  appended to.
\<close>

fun match_loop :: "world \<Rightarrow> string \<Rightarrow> bool \<Rightarrow> store list \<Rightarrow> store list \<Rightarrow> store list" where
  "match_loop w name exact_match_mode [] matched_stores = matched_stores"
| "match_loop w name exact_match_mode (s # rest) matched_stores =
     (let sname = get_browserName s in
      if exact_match_mode
      then (if exact_match w sname name False
            then match_loop w name exact_match_mode rest (matched_stores @ [s])
            else match_loop w name exact_match_mode rest matched_stores)
      else (if fuzzy_match w sname name False
            then match_loop w name exact_match_mode rest (matched_stores @ [s])
            else match_loop w name exact_match_mode rest matched_stores))"

definition find_stores_by_name ::
  "world \<Rightarrow> store_manager \<Rightarrow> string \<Rightarrow> bool \<Rightarrow> bool \<Rightarrow> (error + store list) \<times> store_manager" where
  "find_stores_by_name w m name exact_match_mode use_cache =
     (case get_store_list w m use_cache of
        (Inl e, m') \<Rightarrow> (Inl e, m')
      | (Inr store_list, m') \<Rightarrow> (Inr (match_loop w name exact_match_mode store_list []), m'))"

text \<open>\<^verbatim>\<open>close_store\<close> (lines 372-416).\<close>

definition close_store :: "world \<Rightarrow> string \<Rightarrow> store_manager \<Rightarrow> (error + unit) \<times> store_manager" where
  "close_store w sid m =
     (case new_uuid w m of
        (request_id, m1) \<Rightarrow>
          (let data = dict_update
                        [(''action'', PStr ''stopBrowser''), (''requestId'', PStr request_id),
                         (''duplicate'', PInt 0), (''browserOauth'', PStr sid)]
                        (user_info m1)
           in case http_send w m1 data False of
                (Inl e, m2) \<Rightarrow> (Inl e, m2)
              | (Inr JNull, m2) \<Rightarrow>
                  (Inl (StoreOperationError OpClose sid None (Some MsgHttpNone)), m2)
              | (Inr (JOther t), m2) \<Rightarrow> (Inl AttributeError, m2)
              | (Inr (JDict result), m2) \<Rightarrow>
                  if statusCode result = Some 0 then (Inr (), m2)
                  else (Inl (StoreOperationError OpClose sid (statusCode result)
                               (error_message result)), m2)))"

text \<open>\<^verbatim>\<open>_get_store_name\<close> (lines 418-432).\<close>

fun lookup_name :: "string \<Rightarrow> store list \<Rightarrow> string" where
  "lookup_name store_oauth [] = store_oauth"
| "lookup_name store_oauth (s # rest) =
     (if browserOauth s = Some store_oauth
      then (case browserName s of None \<Rightarrow> store_oauth | Some n \<Rightarrow> n)
      else lookup_name store_oauth rest)"

definition get_store_name :: "store_manager \<Rightarrow> string \<Rightarrow> string" where
  "get_store_name m store_oauth =
     (case store_list_cache m of
        None \<Rightarrow> store_oauth
      | Some cache \<Rightarrow> lookup_name store_oauth cache)"

text \<open>\<^verbatim>\<open>class StoreOpenOptions(TypedDict, total=False)\<close>, the keyword arguments of open.\<close>

record store_open_options =
  isWaitPluginUpdate :: "int option"
  isHeadless :: "int option"
  isWebDriverReadOnlyMode :: "int option"
  cookieTypeLoad :: "int option"
  cookieTypeSave :: "int option"
  runMode :: "string option"
  isLoadUserPlugin :: "bool option"
  pluginIdType :: "int option"
  privacyMode :: "int option"
  jsInfo :: "string option"

definition int_or :: "int option \<Rightarrow> int \<Rightarrow> param" where
  "int_or x d = PInt (case x of None \<Rightarrow> d | Some v \<Rightarrow> v)"

text \<open>The request of \<^verbatim>\<open>open_store\<close> (lines 164-188).\<close>

definition start_browser_request ::
  "world \<Rightarrow> request \<Rightarrow> string \<Rightarrow> string \<Rightarrow> store_open_options \<Rightarrow> request" where
  "start_browser_request w uinfo request_id store_identifier options =
     (let data0 = [(''action'', PStr ''startBrowser''),
                   (''isWaitPluginUpdate'', int_or (isWaitPluginUpdate options) 0),
                   (''isHeadless'', int_or (isHeadless options) 0),
                   (''requestId'', PStr request_id),
                   (''isWebDriverReadOnlyMode'', int_or (isWebDriverReadOnlyMode options) 0),
                   (''cookieTypeLoad'', int_or (cookieTypeLoad options) 0),
                   (''cookieTypeSave'', int_or (cookieTypeSave options) 0),
                   (''runMode'', PStr (case runMode options of None \<Rightarrow> ''1'' | Some v \<Rightarrow> v)),
                   (''isLoadUserPlugin'',
                      PBool (case isLoadUserPlugin options of None \<Rightarrow> False | Some v \<Rightarrow> v)),
                   (''pluginIdType'', int_or (pluginIdType options) 1),
                   (''privacyMode'', int_or (privacyMode options) 0)];
          data1 = dict_update data0 uinfo;
          data2 = (if isdigit w store_identifier
                   then AList.update ''browserId'' (PStr store_identifier) data1
                   else AList.update ''browserOauth'' (PStr store_identifier) data1);
          js_info = (case jsInfo options of None \<Rightarrow> [] | Some v \<Rightarrow> v)
      in if py_len w js_info > 2 then AList.update ''injectJsInfo'' (PDumps js_info) data2
         else data2)"

text \<open>
  What follows a successful start (lines 206-241): the session is made, the IP check
  runs when a check URL came back (its result is only logged), the launcher page is
  opened when one came back, and an exception of either the constructor or
  \<^verbatim>\<open>open_launcher_page\<close> leaves \<^verbatim>\<open>open_store\<close>.
\<close>

definition after_start ::
  "world \<Rightarrow> store_manager \<Rightarrow> string \<Rightarrow> response \<Rightarrow> error + store_manager browser_session" where
  "after_start w m store_identifier result =
     (let debugging_port = debuggingPort result;
          browser_oauth = (case resp_browserOauth result of
                             None \<Rightarrow> store_identifier | Some v \<Rightarrow> v);
          ip_url = ipDetectionPage result;
          launcher = launcherPage result;
          sname = get_store_name m browser_oauth
      in case new_session w debugging_port browser_oauth sname ip_url launcher
                (Some (close_store w)) of
           Inl e \<Rightarrow> Inl e
         | Inr session \<Rightarrow>
             (case (if truthy ip_url then check_ip w session None else Inr True) of
                Inl e \<Rightarrow> Inl e
              | Inr ip_ok \<Rightarrow>
                  if truthy launcher
                  then (case open_launcher_page w session None of
                          Inl e \<Rightarrow> Inl e
                        | Inr u \<Rightarrow> Inr session)
                  else Inr session))"

text \<open>\<^verbatim>\<open>open_store\<close> (lines 144-254).\<close>

definition open_store ::
  "world \<Rightarrow> store_manager \<Rightarrow> string \<Rightarrow> store_open_options
     \<Rightarrow> (error + store_manager browser_session) \<times> store_manager" where
  "open_store w m store_identifier options =
     (case new_uuid w m of
        (request_id, m1) \<Rightarrow>
          (let data = start_browser_request w (user_info m1) request_id store_identifier options
           in case http_send w m1 data False of
                (Inl e, m2) \<Rightarrow> (Inl e, m2)
              | (Inr JNull, m2) \<Rightarrow>
                  (Inl (StoreOperationError OpOpen store_identifier None (Some MsgHttpNone)), m2)
              | (Inr (JOther t), m2) \<Rightarrow> (Inl AttributeError, m2)
              | (Inr (JDict result), m2) \<Rightarrow>
                  if statusCode result = Some 0
                  then (after_start w m2 store_identifier result, m2)
                  else (Inl (StoreOperationError OpOpen store_identifier (statusCode result)
                               (error_message result)), m2)))"

text \<open>\<^verbatim>\<open>open_store_by_name\<close> (lines 256-308); the search runs with \<^verbatim>\<open>use_cache=True\<close>.\<close>

definition open_store_by_name ::
  "world \<Rightarrow> store_manager \<Rightarrow> string \<Rightarrow> bool \<Rightarrow> store_open_options
     \<Rightarrow> (error + store_manager browser_session) \<times> store_manager" where
  "open_store_by_name w m sname exact_match_mode options =
     (case find_stores_by_name w m sname exact_match_mode True of
        (Inl e, m1) \<Rightarrow> (Inl e, m1)
      | (Inr matched_stores, m1) \<Rightarrow>
          if length matched_stores = 0 then (Inl (StoreNotFoundError sname), m1)
          else if length matched_stores > 1
          then (Inl (MultipleStoresFoundError sname (length matched_stores)
                       (map get_browserName matched_stores)), m1)
          else (let s = hd matched_stores; store_oauth = browserOauth s
                in if \<not> truthy store_oauth
                   then (Inl (StoreOperationError OpOpen sname None (Some MsgOauthEmpty)), m1)
                   else (case store_oauth of
                           Some oauth \<Rightarrow> open_store w m1 oauth options
                         | None \<Rightarrow>
                             (Inl (StoreOperationError OpOpen sname None (Some MsgOauthEmpty)),
                              m1))))"

section \<open>Batch opening (\<^verbatim>\<open>StoreManager.open_stores_by_names\<close>)\<close>

text \<open>
  \<^verbatim>\<open>open_single_store\<close>: the task's \<^verbatim>\<open>try ... except Exception\<close> around the call of
  \<^verbatim>\<open>open_store_by_name\<close>, whose outcome is \<open>r\<close>.
\<close>

definition open_single_store :: "string \<Rightarrow> error + 's \<Rightarrow> string \<times> 's option" where
  "open_single_store name r = (case r of Inr session \<Rightarrow> (name, Some session) | Inl e \<Rightarrow> (name, None))"

text \<open>The loop over \<^verbatim>\<open>as_completed(futures)\<close> (lines 358-364), writing the dict.\<close>

fun collect :: "(string \<times> 's option) list \<Rightarrow> (string \<rightharpoonup> 's) \<Rightarrow> (string \<rightharpoonup> 's)" where
  "collect [] sessions = sessions"
| "collect ((name, session) # rest) sessions =
     (case session of
        Some s \<Rightarrow> collect rest (sessions(name \<mapsto> s))
      | None \<Rightarrow> collect rest sessions)"

text \<open>
  The worker threads run the tasks concurrently on the shared manager, so what task
  number \<open>i\<close> (for \<open>store_names ! i\<close>) gets from \<^verbatim>\<open>open_store_by_name\<close> is given by
  \<open>task_result i\<close>, and the order in which the futures complete by the list \<open>completed\<close>
  of task numbers. \<^verbatim>\<open>ThreadPoolExecutor\<close> raises ValueError unless \<open>max_workers > 0\<close>.
\<close>

definition open_stores_by_names ::
  "(nat \<Rightarrow> error + 's) \<Rightarrow> nat list \<Rightarrow> string list \<Rightarrow> int \<Rightarrow> error + (string \<rightharpoonup> 's)" where
  "open_stores_by_names task_result completed store_names max_workers =
     (if max_workers \<le> 0 then Inl ValueError
      else Inr (collect
                  (map (\<lambda>i. open_single_store (store_names ! i) (task_result i)) completed)
                  Map.empty))"

text \<open>
  With one worker the tasks run one after the other in the order submitted, each on
  the manager the one before left: the results of that schedule.
\<close>

fun run_in_order ::
  "world \<Rightarrow> store_manager \<Rightarrow> string list \<Rightarrow> bool \<Rightarrow> store_open_options
     \<Rightarrow> (error + store_manager browser_session) list" where
  "run_in_order w m [] exact_match_mode options = []"
| "run_in_order w m (name # rest) exact_match_mode options =
     (case open_store_by_name w m name exact_match_mode options of
        (r, m') \<Rightarrow> r # run_in_order w m' rest exact_match_mode options)"

section \<open>Core update (\<^verbatim>\<open>ZiniaoClient.update_core\<close>, \<^verbatim>\<open>client.py\<close>)\<close>








section \<open>Vocabulary of the properties\<close>







text \<open>The listing request \<^verbatim>\<open>get_store_list\<close> sends from manager \<open>m\<close>.\<close>

definition list_request_of :: "world \<Rightarrow> store_manager \<Rightarrow> request" where
  "list_request_of w m =
     dict_update
       [(''action'', PStr ''getBrowserList''), (''requestId'', PStr (uuid4 w (uuids_drawn m)))]
       (user_info m)"

text \<open>The names of a batch for which some task returned a session.\<close>

definition succeeded :: "(nat \<Rightarrow> error + 's) \<Rightarrow> string list \<Rightarrow> string set" where
  "succeeded task_result store_names =
     {store_names ! i | i. i < length store_names \<and> (\<exists>s. task_result i = Inr s)}"

section \<open>Example inputs\<close>

definition reply :: "int \<Rightarrow> response" where
  "reply code = \<lparr>statusCode = Some code, message = None, browserList = None,
     debuggingPort = None, resp_browserOauth = None, ipDetectionPage = None,
     launcherPage = None\<rparr>"

definition client_with :: "int \<Rightarrow> http_client" where
  "client_with n = \<lparr>port = 16851, timeout = 120, max_retries = n, retry_delay = Finite 2\<rparr>"

text \<open>The same client with a negative delay, and a platform limit of some 49 days.\<close>

definition hasty_client :: "int \<Rightarrow> http_client" where
  "hasty_client n =
     \<lparr>port = 16851, timeout = 120, max_retries = n, retry_delay = Finite (- 1)\<rparr>"

definition day49 :: rat where
  "day49 = 4294967"

definition list_request :: request where
  "list_request = [(''action'', PStr ''getBrowserList''), (''requestId'', PStr ''id-1'')]"

definition always :: "post_outcome \<Rightarrow> nat \<Rightarrow> post_outcome" where
  "always out i = out"


definition store_named :: "string \<Rightarrow> string \<Rightarrow> store" where
  "store_named oauth name =
     \<lparr>browserOauth = Some oauth, browserName = Some name, browserId = None\<rparr>"

definition manager_with :: "int \<Rightarrow> store list option \<Rightarrow> store_manager" where
  "manager_with n cache = \<lparr>http = client_with n,
     user_info = [(''company'', PStr ''c''), (''username'', PStr ''u''), (''password'', PStr ''p'')],
     store_list_cache = cache, posts_made = 0, uuids_drawn = 0, clock_reads = 0, trace = []\<rparr>"

text \<open>
  A world whose POSTs end as \<open>p\<close> says, whose clock advances two seconds per reading,
  whose subtraction is exact and whose browser always connects and shows the success
  button. Its texts are ASCII, so its Unicode oracles are never asked.
\<close>

definition world_with :: "(nat \<Rightarrow> post_outcome) \<Rightarrow> world" where
  "world_with p = \<lparr>post_result = p, uuid4 = (\<lambda>k. replicate (Suc k) (CHR ''u'')),
     clock = (\<lambda>k. 2 * of_nat k), float_sub = (\<lambda>a b. a - b), sleep_limit = day49,
     unicode_lower = (\<lambda>t. t), unicode_isdigit = (\<lambda>t. False), unicode_len = length,
     chromium_connects = (\<lambda>p. True), latest_tab = (\<lambda>b. 0),
     tabs = (\<lambda>b. [0]), tab_get = (\<lambda>t u. True), tab_ele = (\<lambda>t u. EleFound)\<rparr>"

definition started_reply :: response where
  "started_reply = \<lparr>statusCode = Some 0, message = None, browserList = None,
     debuggingPort = Some 9222, resp_browserOauth = None, ipDetectionPage = Some ''http://ip'',
     launcherPage = Some ''http://shop''\<rparr>"

definition no_options :: store_open_options where
  "no_options = \<lparr>isWaitPluginUpdate = None, isHeadless = None, isWebDriverReadOnlyMode = None,
     cookieTypeLoad = None, cookieTypeSave = None, runMode = None, isLoadUserPlugin = None,
     pluginIdType = None, privacyMode = None, jsInfo = None\<rparr>"

definition two_store_ones :: "store list" where
  "two_store_ones = [store_named ''a'' ''Store One'', store_named ''b'' ''store one '']"


definition two_shops :: "store list" where
  "two_shops = [store_named ''s1'' ''Shop'', store_named ''s2'' ''Shop'']"

definition nameless_oauth :: "store list" where
  "nameless_oauth = [\<lparr>browserOauth = None, browserName = Some ''Solo'', browserId = Some ''17''\<rparr>]"

definition abc_listing :: "store list" where
  "abc_listing = [store_named ''oa'' ''A'', store_named ''ob1'' ''B'', store_named ''ob2'' ''B'',
     store_named ''oc'' ''C'']"

text \<open>The batch A, B, C on one worker, every start request answered with success.\<close>

definition abc_results :: "nat \<Rightarrow> error + store_manager browser_session" where
  "abc_results i =
     run_in_order (world_with (always (Parsed (JDict started_reply))))
       (manager_with 3 (Some abc_listing)) [''A'', ''B'', ''C''] True no_options ! i"

text \<open>A batch naming A twice: the first task returns a session, the second raises.\<close>

definition dup_results :: "nat \<Rightarrow> error + nat" where
  "dup_results i = (if i = 0 then Inr 7 else Inl (CommunicationError ConnectFailed))"

text \<open>A teardown that always fails, an open session bound to it, and a closed session.\<close>

definition failing_teardown :: "string \<Rightarrow> unit \<Rightarrow> (error + unit) \<times> unit" where
  "failing_teardown sid st = (Inl (StoreOperationError OpClose sid (Some 1) (Some MsgUnknown)), st)"

definition open_session :: "(nat \<times> unit) browser_session" where
  "open_session = \<lparr>session_port = Some 9222, store_id = ''oa'', store_name = ''A'',
     ip_check_url = Some ''http://ip'', launcher_page = None,
     close_callback = Some (counting failing_teardown),
     browser_obj = Some (Chromium (Some 9222)), closed = False\<rparr>"

definition closed_session :: "unit browser_session" where
  "closed_session = \<lparr>session_port = Some 9222, store_id = ''oa'', store_name = ''A'',
     ip_check_url = Some ''http://ip'', launcher_page = Some ''http://shop'',
     close_callback = None, browser_obj = None, closed = True\<rparr>"

section \<open>Properties of the transport client\<close>

lemma except_clauses_not_auth: "except_clauses c a e \<noteq> Raise AuthenticationError"
  by (simp add: except_clauses_def split: exc.splits)

lemma time_sleep_not_auth: "time_sleep cap t \<noteq> Some AuthenticationError"
  by (simp add: time_sleep_def split: pyfloat.splits)

lemma for_attempts_not_auth:
  "for_attempts cap c env data ron xs lastx = (r, tr) \<Longrightarrow> r \<noteq> Inl AuthenticationError"
proof (induction xs arbitrary: lastx r tr)
  case Nil
  then show ?case by (auto split: option.splits)
next
  case (Cons a xs)
  show ?case
  proof (cases "try_body cap c ron (int a) (env a)")
    case (Inl e)
    show ?thesis
    proof (cases "except_clauses c (int a) e")
      case Retry
      show ?thesis
      proof (cases "time_sleep cap (retry_delay c)")
        case None
        with Retry Inl Cons.prems Cons.IH[of "Some e"] show ?thesis
          by (auto split: prod.splits)
      next
        case (Some err)
        with Retry Inl Cons.prems time_sleep_not_auth[of cap "retry_delay c"] show ?thesis
          by auto
      qed
    next
      case (Raise err)
      with Inl Cons.prems except_clauses_not_auth[of c "int a" e] show ?thesis
        by auto
    qed
  next
    case (Inr st)
    with Cons.prems Cons.IH[of lastx] show ?thesis
      by (cases st) (auto split: prod.splits)
  qed
qed

text \<open>
  Whatever the peer answers, \<^verbatim>\<open>send_request\<close> never raises AuthenticationError: the
  \<^verbatim>\<open>raise\<close> of line 110 sits inside the \<^verbatim>\<open>try\<close> whose last clause is
  \<^verbatim>\<open>except Exception\<close>.
\<close>

lemma send_request_never_raises_authentication:
  "fst (send_request cap c env data ron) \<noteq> Inl AuthenticationError"
  using for_attempts_not_auth[of cap c env data ron _ None
          "fst (send_request cap c env data ron)" "snd (send_request cap c env data ron)"]
  by (simp add: send_request_def)

lemma sleep_two_seconds: "time_sleep day49 (Finite 2) = None"
  by (simp add: time_sleep_def day49_def)

lemma sleep_negative: "time_sleep day49 (Finite (- 1)) = Some ValueError"
  by (simp add: time_sleep_def day49_def)

text \<open>
  C1. A response with statusCode -10003 should surface at once as AuthenticationError,
  on attempt 1, with the retry budget untouched. The code does otherwise: with
  \<open>max_retries = 3\<close> and a peer that answers -10003 every time, the request is posted
  four times, with three sleeps in between, and the caller gets CommunicationError.
\<close>

theorem auth_sentinel_is_retried_then_communication_error:
  "send_request day49 (client_with 3) (always (Parsed (JDict (reply (- 10003)))))
      list_request False =
     (Inl (CommunicationError UnknownFailed),
      [Post list_request, Sleep (Finite 2), Post list_request, Sleep (Finite 2),
       Post list_request, Sleep (Finite 2), Post list_request])"
  by (simp add: send_request_def client_with_def always_def reply_def try_body_def
        status_code_of_def except_clauses_def upt_rec sleep_two_seconds)
























lemma connection_failures_run:
  assumes "int N = max_retries c" and "\<forall>j. env j = PostConnectionError"
    and "time_sleep cap (retry_delay c) = None"
  shows "i \<le> N \<Longrightarrow> for_attempts cap c env data ron [i..<Suc N] lastx =
     (Inl (CommunicationError ConnectFailed),
      concat (replicate (N - i) [Post data, Sleep (retry_delay c)]) @ [Post data])"
proof (induction "N - i" arbitrary: i lastx)
  case 0
  then have "i = N" by simp
  then show ?case using assms
    by (simp add: try_body_def except_clauses_def)
next
  case (Suc k)
  then have lt: "i < N" and k: "k = N - Suc i" by simp_all
  then have u: "[i..<Suc N] = i # [Suc i..<Suc N]" by (simp add: upt_conv_Cons)
  have r: "N - i = Suc (N - Suc i)" using lt by simp
  from Suc.hyps(1)[OF k] lt
  have ih: "for_attempts cap c env data ron [Suc i..<Suc N] (Some ConnectionError) =
     (Inl (CommunicationError ConnectFailed),
      concat (replicate (N - Suc i) [Post data, Sleep (retry_delay c)]) @ [Post data])"
    by simp
  show ?case using assms lt
    by (simp add: u r ih try_body_def except_clauses_def del: upt_Suc)
qed

lemma posts_retry_rounds:
  "posts (concat (replicate n [Post data, Sleep t]) @ [Post data]) = replicate (Suc n) data"
  by (induction n) simp_all

lemma connection_failure_sleep_fails:
  assumes "0 < max_retries c" and "env 0 = PostConnectionError"
    and "time_sleep cap (retry_delay c) = Some e"
  shows "send_request cap c env data ron = (Inl e, [Post data])"
proof -
  have "[0..<nat (max_retries c + 1)] = 0 # [Suc 0..<nat (max_retries c + 1)]"
    using assms(1) by (simp add: upt_conv_Cons)
  then show ?thesis using assms
    by (simp add: send_request_def try_body_def except_clauses_def)
qed

text \<open>
  C3, as the code has it. Let \<open>max_retries = N \<ge> 0\<close> and every attempt end in a
  connection failure. When \<^verbatim>\<open>time.sleep\<close> accepts \<open>retry_delay\<close> (or \<open>N = 0\<close>, so that
  nothing sleeps), \<^verbatim>\<open>send_request\<close> makes exactly \<open>N + 1\<close> delivery attempts, sleeping
  \<open>retry_delay\<close> after each but the last, and then raises CommunicationError from the
  connection-failure clause. When \<^verbatim>\<open>time.sleep\<close> rejects \<open>retry_delay\<close> and \<open>N > 0\<close>, the
  sleep inside the clause raises after the first attempt, and that exception is what
  the caller gets.
\<close>

theorem connection_failures_exhaust_the_budget:
  assumes "0 \<le> max_retries c" and "\<forall>j. env j = PostConnectionError"
  shows "(time_sleep cap (retry_delay c) = None \<or> max_retries c = 0 \<longrightarrow>
            fst (send_request cap c env data ron) = Inl (CommunicationError ConnectFailed)
          \<and> attempts_made (snd (send_request cap c env data ron)) = nat (max_retries c) + 1
          \<and> snd (send_request cap c env data ron) =
              concat (replicate (nat (max_retries c)) [Post data, Sleep (retry_delay c)])
              @ [Post data])
       \<and> (\<forall>e. time_sleep cap (retry_delay c) = Some e \<and> 0 < max_retries c \<longrightarrow>
            send_request cap c env data ron = (Inl e, [Post data]))"
proof -
  have n: "int (nat (max_retries c)) = max_retries c" using assms(1) by simp
  have s: "nat (max_retries c + 1) = Suc (nat (max_retries c))" using assms(1) by simp
  have a: "send_request cap c env data ron =
     (Inl (CommunicationError ConnectFailed),
      concat (replicate (nat (max_retries c)) [Post data, Sleep (retry_delay c)]) @ [Post data])"
    if "time_sleep cap (retry_delay c) = None"
    using connection_failures_run[OF n assms(2) that, of 0 data ron None]
    by (simp add: send_request_def s del: upt_Suc)
  have b: "send_request cap c env data ron =
     (Inl (CommunicationError ConnectFailed),
      concat (replicate (nat (max_retries c)) [Post data, Sleep (retry_delay c)]) @ [Post data])"
    if "max_retries c = 0"
    using that assms(2) by (simp add: send_request_def try_body_def except_clauses_def)
  have c: "send_request cap c env data ron = (Inl e, [Post data])"
    if "time_sleep cap (retry_delay c) = Some e" "0 < max_retries c" for e
    using connection_failure_sleep_fails[OF that(2) _ that(1), of env data ron] assms(2)
    by simp
  show ?thesis
    using a b c by (auto simp: attempts_made_def posts_retry_rounds)
qed

theorem connection_failures_exhaust_the_budget_witness:
  "0 \<le> max_retries (client_with 2)
   \<and> time_sleep day49 (retry_delay (client_with 2)) = None
   \<and> fst (send_request day49 (client_with 2) (always PostConnectionError) list_request False) =
     Inl (CommunicationError ConnectFailed)
   \<and> attempts_made (snd (send_request day49 (client_with 2) (always PostConnectionError)
        list_request False)) = 3"
proof -
  have h1: "0 \<le> max_retries (client_with 2)"
    by (simp add: client_with_def)
  have h2: "\<forall>j. always PostConnectionError j = PostConnectionError"
    by (simp add: always_def)
  have h3: "time_sleep day49 (retry_delay (client_with 2)) = None"
    by (simp add: client_with_def sleep_two_seconds)
  have n: "nat (max_retries (client_with 2)) + 1 = 3"
    by (simp add: client_with_def)
  note t = connection_failures_exhaust_the_budget[OF h1 h2, of day49 list_request False]
  from t h3 have a: "fst (send_request day49 (client_with 2) (always PostConnectionError)
      list_request False) = Inl (CommunicationError ConnectFailed)"
    by blast
  from t h3 have b: "attempts_made (snd (send_request day49 (client_with 2)
      (always PostConnectionError) list_request False)) = nat (max_retries (client_with 2)) + 1"
    by blast
  show ?thesis
    using a b h1 h3 n by simp
qed

text \<open>
  C3 as stated fails for a client with a negative delay: with \<open>max_retries = 3\<close> and
  \<open>retry_delay = -1\<close>, the first connection failure is followed by a sleep that raises
  ValueError inside the \<^verbatim>\<open>except\<close> clause, so there is one attempt and no
  CommunicationError.
\<close>

theorem negative_delay_one_attempt_counterexample:
  "send_request day49 (hasty_client 3) (always PostConnectionError) list_request False =
     (Inl ValueError, [Post list_request])"
  by (simp add: send_request_def hasty_client_def always_def try_body_def except_clauses_def
        upt_rec sleep_negative)

section \<open>Properties of the retry-on-null mode and the core update\<close>


















section \<open>Properties of the resource manager\<close>



















text \<open>
  The fuzzy example of the specification: the query amazon over My Amazon Shop and
  Foo Bar.
\<close>

lemma fuzzy_search_example:
  "find_stores_by_name (world_with (always PostConnectionError))
      (manager_with 3 (Some [store_named ''a'' ''My Amazon Shop'', store_named ''b'' ''Foo Bar'']))
      ''amazon'' False True =
   (Inr [store_named ''a'' ''My Amazon Shop''],
    manager_with 3 (Some [store_named ''a'' ''My Amazon Shop'', store_named ''b'' ''Foo Bar'']))"
  by code_simp

text \<open>
  C6. When the search returns: no match raises StoreNotFoundError with the query;
  more than one match raises MultipleStoresFoundError with the query, the number of
  matches and their display names; one match whose browserOauth is present and not
  empty is opened through \<^verbatim>\<open>open_store\<close> with that browserOauth; one match without a
  usable browserOauth raises StoreOperationError.
\<close>

theorem open_by_name_dispatch:
  assumes "find_stores_by_name w m query exact True = (Inr matched, m1)"
  shows "(matched = [] \<longrightarrow>
            open_store_by_name w m query exact options = (Inl (StoreNotFoundError query), m1))
       \<and> (length matched > 1 \<longrightarrow>
            open_store_by_name w m query exact options =
              (Inl (MultipleStoresFoundError query (length matched)
                      (map get_browserName matched)), m1))
       \<and> (\<forall>s oauth. matched = [s] \<and> browserOauth s = Some oauth \<and> oauth \<noteq> [] \<longrightarrow>
            open_store_by_name w m query exact options = open_store w m1 oauth options)
       \<and> (\<forall>s. matched = [s] \<and> (browserOauth s = None \<or> browserOauth s = Some []) \<longrightarrow>
            open_store_by_name w m query exact options =
              (Inl (StoreOperationError OpOpen query None (Some MsgOauthEmpty)), m1))"
  using assms
  by (auto simp: open_store_by_name_def truthy_def Let_def)

lemma find_two_shops:
  "find_stores_by_name (world_with (always PostConnectionError))
      (manager_with 3 (Some two_shops)) ''Shop'' True True =
     (Inr two_shops, manager_with 3 (Some two_shops))"
  by code_simp

lemma find_no_shop:
  "find_stores_by_name (world_with (always PostConnectionError))
      (manager_with 3 (Some two_shops)) ''X'' True True =
     (Inr [], manager_with 3 (Some two_shops))"
  by code_simp

lemma find_solo:
  "find_stores_by_name (world_with (always PostConnectionError))
      (manager_with 3 (Some nameless_oauth)) ''solo'' False True =
     (Inr nameless_oauth, manager_with 3 (Some nameless_oauth))"
  by code_simp

lemma find_store_one:
  "find_stores_by_name (world_with (always PostConnectionError))
      (manager_with 3 (Some two_store_ones)) ''Store One'' True True =
     (Inr [store_named ''a'' ''Store One''], manager_with 3 (Some two_store_ones))"
  by code_simp

theorem open_by_name_dispatch_witness:
  "open_store_by_name (world_with (always PostConnectionError))
      (manager_with 3 (Some two_shops)) ''Shop'' True no_options =
     (Inl (MultipleStoresFoundError ''Shop'' 2 [''Shop'', ''Shop'']),
      manager_with 3 (Some two_shops))
   \<and> open_store_by_name (world_with (always PostConnectionError))
        (manager_with 3 (Some two_shops)) ''X'' True no_options =
     (Inl (StoreNotFoundError ''X''), manager_with 3 (Some two_shops))
   \<and> open_store_by_name (world_with (always PostConnectionError))
        (manager_with 3 (Some nameless_oauth)) ''solo'' False no_options =
     (Inl (StoreOperationError OpOpen ''solo'' None (Some MsgOauthEmpty)),
      manager_with 3 (Some nameless_oauth))
   \<and> open_store_by_name (world_with (always PostConnectionError))
        (manager_with 3 (Some two_store_ones)) ''Store One'' True no_options =
     open_store (world_with (always PostConnectionError))
       (manager_with 3 (Some two_store_ones)) ''a'' no_options"
proof -
  have a: "open_store_by_name (world_with (always PostConnectionError))
      (manager_with 3 (Some two_shops)) ''Shop'' True no_options =
     (Inl (MultipleStoresFoundError ''Shop'' 2 [''Shop'', ''Shop'']),
      manager_with 3 (Some two_shops))"
    using open_by_name_dispatch[OF find_two_shops, of no_options]
    by (simp add: two_shops_def get_browserName_def store_named_def)
  have b: "open_store_by_name (world_with (always PostConnectionError))
        (manager_with 3 (Some two_shops)) ''X'' True no_options =
     (Inl (StoreNotFoundError ''X''), manager_with 3 (Some two_shops))"
    using open_by_name_dispatch[OF find_no_shop, of no_options] by simp
  have c: "open_store_by_name (world_with (always PostConnectionError))
        (manager_with 3 (Some nameless_oauth)) ''solo'' False no_options =
     (Inl (StoreOperationError OpOpen ''solo'' None (Some MsgOauthEmpty)),
      manager_with 3 (Some nameless_oauth))"
    using open_by_name_dispatch[OF find_solo, of no_options]
    by (simp add: nameless_oauth_def)
  have d: "open_store_by_name (world_with (always PostConnectionError))
        (manager_with 3 (Some two_store_ones)) ''Store One'' True no_options =
     open_store (world_with (always PostConnectionError))
       (manager_with 3 (Some two_store_ones)) ''a'' no_options"
    using open_by_name_dispatch[OF find_store_one, of no_options]
    by (simp add: store_named_def)
  from a b c d show ?thesis by simp
qed

lemma http_send_cache:
  "http_send w m data ron = (r, m') \<Longrightarrow> store_list_cache m' = store_list_cache m"
  by (auto simp: http_send_def split: prod.splits)

lemma new_uuid_cache:
  "new_uuid w m = (u, m') \<Longrightarrow> store_list_cache m' = store_list_cache m"
  by (auto simp: new_uuid_def)

text \<open>
  C10. When \<^verbatim>\<open>get_store_list\<close> raises, for whatever reason (the transport raised, the
  answer was null or not a dict, the statusCode was not 0), the cache is what it was
  before the call. When it returns a listing, the cache holds that listing. And the
  cache differs from what it was only if the listing request was answered with a dict
  whose statusCode is 0.
\<close>

theorem cache_is_written_only_on_status_zero:
  assumes "get_store_list w m use_cache = (r, m')"
  shows "(case r of
            Inl e \<Rightarrow> store_list_cache m' = store_list_cache m
          | Inr listing \<Rightarrow> store_list_cache m' = Some listing)
       \<and> (store_list_cache m' = store_list_cache m
          \<or> (\<exists>result m2. http_send w (snd (new_uuid w m)) (list_request_of w m) False
                             = (Inr (JDict result), m2)
               \<and> statusCode result = Some 0))"
proof (cases "use_cache \<and> store_list_cache m \<noteq> None")
  case True
  then obtain cached where "store_list_cache m = Some cached" by auto
  with True assms show ?thesis by (auto simp: get_store_list_def)
next
  case False
  obtain u m1 where nu: "new_uuid w m = (u, m1)" by (cases "new_uuid w m")
  then have u: "u = uuid4 w (uuids_drawn m)" and ui: "user_info m1 = user_info m"
    by (auto simp: new_uuid_def)
  obtain x m2 where hs: "http_send w m1 (list_request_of w m) False = (x, m2)"
    by (cases "http_send w m1 (list_request_of w m) False")
  have c: "store_list_cache m2 = store_list_cache m"
    using http_send_cache[OF hs] new_uuid_cache[OF nu] by simp
  have g: "get_store_list w m use_cache =
     (case (x, m2) of
         (Inl e, m2) \<Rightarrow> (Inl e, m2)
       | (Inr JNull, m2) \<Rightarrow> (Inl (StoreOperationError OpGet ''all'' None (Some MsgHttpNone)), m2)
       | (Inr (JOther t), m2) \<Rightarrow> (Inl AttributeError, m2)
       | (Inr (JDict result), m2) \<Rightarrow>
           if statusCode result = Some 0
           then (let browser_list = (case browserList result of None \<Rightarrow> [] | Some l \<Rightarrow> l)
                 in (Inr browser_list, m2\<lparr>store_list_cache := Some browser_list\<rparr>))
           else (Inl (StoreOperationError OpGetList ''all'' (statusCode result)
                        (error_message result)), m2))"
    using False nu hs u ui
    by (auto simp: get_store_list_def list_request_of_def split: bool.splits option.splits)
  show ?thesis
  proof (cases x)
    case (Inl e)
    with g assms c show ?thesis by auto
  next
    case (Inr j)
    show ?thesis
    proof (cases j)
      case JNull
      with Inr g assms c show ?thesis by auto
    next
      case (JOther t)
      with Inr g assms c show ?thesis by auto
    next
      case (JDict result)
      show ?thesis
      proof (cases "statusCode result = Some 0")
        case True
        with JDict Inr g assms c hs nu show ?thesis by (auto simp: Let_def)
      next
        case False
        with JDict Inr g assms c show ?thesis by auto
      qed
    qed
  qed
qed

lemma failed_listing_run:
  "fst (get_store_list (world_with (always (Parsed (JDict (reply 5)))))
     (manager_with 3 (Some abc_listing)) False) =
   Inl (StoreOperationError OpGetList ''all'' (Some 5) (Some MsgUnknown))"
  by code_simp

theorem cache_is_written_only_on_status_zero_witness:
  "fst (get_store_list (world_with (always (Parsed (JDict (reply 5)))))
     (manager_with 3 (Some abc_listing)) False) =
   Inl (StoreOperationError OpGetList ''all'' (Some 5) (Some MsgUnknown))
   \<and> store_list_cache (snd (get_store_list (world_with (always (Parsed (JDict (reply 5)))))
        (manager_with 3 (Some abc_listing)) False)) = Some abc_listing"
proof -
  let ?g = "get_store_list (world_with (always (Parsed (JDict (reply 5)))))
     (manager_with 3 (Some abc_listing)) False"
  have p: "?g = (fst ?g, snd ?g)" by simp
  from cache_is_written_only_on_status_zero[OF p]
  have "(case fst ?g of
            Inl e \<Rightarrow> store_list_cache (snd ?g) = store_list_cache (manager_with 3 (Some abc_listing))
          | Inr listing \<Rightarrow> store_list_cache (snd ?g) = Some listing)"
    by (rule conjunct1)
  then have "store_list_cache (snd ?g) = store_list_cache (manager_with 3 (Some abc_listing))"
    by (simp add: failed_listing_run)
  moreover have "store_list_cache (manager_with 3 (Some abc_listing)) = Some abc_listing"
    by (simp add: manager_with_def)
  ultimately show ?thesis
    by (simp add: failed_listing_run)
qed

section \<open>Properties of the session handle\<close>

lemma close_closed: "closed (fst (snd (close s st)))"
  by (simp add: close_def Let_def)

lemma close_no_raise: "fst (close s st) = Inr ()"
  by (simp add: close_def Let_def)

lemma close_noop: "closed s \<Longrightarrow> close s st = (Inr (), s, st)"
  by (simp add: close_def)

text \<open>
  C7. Take any session whose callback, if it has one, counts its invocations, and call
  \<^verbatim>\<open>close\<close> twice in sequence. Neither call raises; the session is closed after the
  first call and after the second, also when the callback raised; the second call
  changes neither the session nor the state the callback runs on; and the callback has
  run at most once over both calls.
\<close>

theorem close_twice_tears_down_at_most_once:
  fixes s :: "(nat \<times> 'w) browser_session"
  assumes cb: "close_callback s = map_option counting cbo"
    and c1: "close s (n, st) = (r1, s1, n1, st1)"
    and c2: "close s1 (n1, st1) = (r2, s2, n2, st2)"
  shows "r1 = Inr () \<and> r2 = Inr () \<and> closed s1 \<and> closed s2 \<and> s2 = s1 \<and> st2 = st1
       \<and> n2 = n1 \<and> n1 \<le> Suc n"
proof -
  have a: "r1 = Inr ()" using close_no_raise[of s "(n, st)"] c1 by simp
  have b: "closed s1" using close_closed[of s "(n, st)"] c1 by simp
  have c: "r2 = Inr () \<and> s2 = s1 \<and> n2 = n1 \<and> st2 = st1"
    using close_noop[OF b, of "(n1, st1)"] c2 by simp
  have d: "n1 \<le> Suc n"
  proof (cases "closed s")
    case True
    then show ?thesis using c1 by (simp add: close_def)
  next
    case False
    show ?thesis
    proof (cases cbo)
      case None
      with False cb c1 show ?thesis by (auto simp: close_def Let_def)
    next
      case (Some f)
      with False cb c1 show ?thesis
        by (auto simp: close_def Let_def counting_def split: prod.splits sum.splits)
    qed
  qed
  from a b c d show ?thesis by simp
qed

lemma close_open_session:
  "close open_session (0, ()) =
     (Inr (), open_session\<lparr>closed := True, browser_obj := None\<rparr>, 1, ())"
  by (simp add: close_def open_session_def counting_def failing_teardown_def)

lemma close_open_session_again:
  "close (open_session\<lparr>closed := True, browser_obj := None\<rparr>) (1, ()) =
     (Inr (), open_session\<lparr>closed := True, browser_obj := None\<rparr>, 1, ())"
  by (simp add: close_def)

theorem close_twice_tears_down_at_most_once_witness:
  "close_callback open_session = map_option counting (Some failing_teardown)
   \<and> close open_session (0, ()) =
       (Inr (), open_session\<lparr>closed := True, browser_obj := None\<rparr>, 1, ())
   \<and> close (open_session\<lparr>closed := True, browser_obj := None\<rparr>) (1, ()) =
       (Inr (), open_session\<lparr>closed := True, browser_obj := None\<rparr>, 1, ())
   \<and> closed (open_session\<lparr>closed := True, browser_obj := None\<rparr>)
   \<and> (1::nat) \<le> Suc 0"
proof -
  have h: "close_callback open_session = map_option counting (Some failing_teardown)"
    by (simp add: open_session_def)
  from close_twice_tears_down_at_most_once[OF h close_open_session close_open_session_again]
  have "closed (open_session\<lparr>closed := True, browser_obj := None\<rparr>) \<and> (1::nat) \<le> Suc 0"
    by blast
  with h close_open_session close_open_session_again show ?thesis by blast
qed

text \<open>
  C8, as the code has it. On a closed session the property \<^verbatim>\<open>browser\<close>, \<^verbatim>\<open>get_tab\<close> and
  \<^verbatim>\<open>navigate\<close> raise ZiniaoError with the session-closed message. \<^verbatim>\<open>check_ip\<close> raises
  nothing: it returns \<^verbatim>\<open>True\<close> when neither its argument nor the session gives a URL
  and \<^verbatim>\<open>False\<close> otherwise. \<^verbatim>\<open>open_launcher_page\<close> raises ZiniaoError with its own
  messages, and \<^verbatim>\<open>is_closed\<close> returns \<^verbatim>\<open>True\<close>.
\<close>

theorem operations_on_a_closed_session:
  assumes "closed s"
  shows "browser s = Inl (ZiniaoError SessionClosedMsg)
       \<and> get_tab w s index = Inl (ZiniaoError SessionClosedMsg)
       \<and> navigate w s url = Inl (ZiniaoError SessionClosedMsg)
       \<and> check_ip w s ip_url = Inr (\<not> truthy (py_or ip_url (ip_check_url s)))
       \<and> open_launcher_page w s launcher =
           Inl (ZiniaoError (if truthy (py_or launcher (launcher_page s))
                             then OpenLauncherFailed else LauncherUrlEmpty))
       \<and> is_closed s"
proof -
  have b: "browser s = Inl (ZiniaoError SessionClosedMsg)"
    using assms by (simp add: browser_def)
  have g: "\<And>i. get_tab w s i = Inl (ZiniaoError SessionClosedMsg)"
    by (simp add: get_tab_def b)
  have n: "navigate w s url = Inl (ZiniaoError SessionClosedMsg)"
    by (simp add: navigate_def g)
  have c: "check_ip w s ip_url = Inr (\<not> truthy (py_or ip_url (ip_check_url s)))"
    by (simp add: check_ip_def g truthy_def split: option.splits)
  have l: "open_launcher_page w s launcher =
           Inl (ZiniaoError (if truthy (py_or launcher (launcher_page s))
                             then OpenLauncherFailed else LauncherUrlEmpty))"
    by (simp add: open_launcher_page_def g truthy_def split: option.splits)
  show ?thesis using b g n c l assms by (simp add: is_closed_def)
qed

theorem operations_on_a_closed_session_witness:
  "closed closed_session
   \<and> browser closed_session = Inl (ZiniaoError SessionClosedMsg)
   \<and> get_tab (world_with (always PostConnectionError)) closed_session 0 =
       Inl (ZiniaoError SessionClosedMsg)
   \<and> navigate (world_with (always PostConnectionError)) closed_session ''http://shop'' =
       Inl (ZiniaoError SessionClosedMsg)
   \<and> is_closed closed_session"
proof -
  have h: "closed closed_session" by (simp add: closed_session_def)
  from operations_on_a_closed_session[OF h, of "world_with (always PostConnectionError)" 0
      "''http://shop''" None None] h
  show ?thesis by blast
qed

text \<open>
  C8 as stated fails for the readiness check: on a closed session that has a check URL,
  \<^verbatim>\<open>check_ip\<close> returns \<^verbatim>\<open>False\<close> instead of raising.
\<close>

theorem check_ip_on_closed_session_counterexample:
  "closed closed_session
   \<and> check_ip (world_with (always PostConnectionError)) closed_session None = Inr False"
  by (simp add: closed_session_def check_ip_def py_or_def truthy_def get_tab_def browser_def)

section \<open>Properties of batch opening\<close>

lemma dom_collect:
  "dom (collect rs sessions) = dom sessions \<union> {name. \<exists>s. (name, Some s) \<in> set rs}"
proof (induction rs arbitrary: sessions)
  case Nil
  then show ?case by simp
next
  case (Cons r rs)
  obtain nm session where r: "r = (nm, session)" by (cases r)
  show ?case
  proof (cases session)
    case None
    with r Cons.IH[of sessions] show ?thesis by auto
  next
    case (Some t)
    define m' where "m' = sessions(nm \<mapsto> t)"
    have c: "collect (r # rs) sessions = collect rs m'"
      using r Some by (simp add: m'_def)
    have dm: "dom m' = insert nm (dom sessions)"
      by (simp add: m'_def)
    have "{name. \<exists>s. (name, Some s) \<in> set (r # rs)} =
        insert nm {name. \<exists>s. (name, Some s) \<in> set rs}"
      using r Some by auto
    with Cons.IH[of m'] c dm show ?thesis by auto
  qed
qed

lemma collect_value:
  "collect rs sessions name = Some s \<Longrightarrow> sessions name = Some s \<or> (name, Some s) \<in> set rs"
proof (induction rs arbitrary: sessions)
  case Nil
  then show ?case by simp
next
  case (Cons r rs)
  obtain nm session where r: "r = (nm, session)" by (cases r)
  show ?case
  proof (cases session)
    case None
    with r Cons.prems Cons.IH[of sessions] show ?thesis by auto
  next
    case (Some t)
    define m' where "m' = sessions(nm \<mapsto> t)"
    have c: "collect (r # rs) sessions = collect rs m'"
      using r Some by (simp add: m'_def)
    have v: "m' name = (if name = nm then Some t else sessions name)"
      by (simp add: m'_def)
    from Cons.IH[of m'] Cons.prems c
    have "m' name = Some s \<or> (name, Some s) \<in> set rs" by simp
    with v r Some show ?thesis by (auto split: if_splits)
  qed
qed

lemma collect_distinct:
  "distinct (map fst rs) \<Longrightarrow> (name, Some s) \<in> set rs \<Longrightarrow> collect rs sessions name = Some s"
proof (induction rs arbitrary: sessions)
  case Nil
  then show ?case by simp
next
  case (Cons r rs)
  obtain nm session where r: "r = (nm, session)" by (cases r)
  from Cons.prems(1) r have d: "distinct (map fst rs)" and nin: "nm \<notin> fst ` set rs" by auto
  show ?case
  proof (cases "(name, Some s) \<in> set rs")
    case True
    from Cons.IH[OF d True] r show ?thesis by (cases session) auto
  next
    case False
    with Cons.prems(2) r have e: "nm = name" "session = Some s" by auto
    from nin e have nk: "\<And>t. (name, Some t) \<notin> set rs" by force
    have "name \<in> dom (collect rs (sessions(name \<mapsto> s)))" by (simp add: dom_collect)
    then obtain t where t: "collect rs (sessions(name \<mapsto> s)) name = Some t" by auto
    from collect_value[OF t] nk have "t = s" by auto
    with t e r show ?thesis by simp
  qed
qed

lemma names_with_session:
  assumes "set completed = {..<length store_names}"
  shows "{name. \<exists>s. (name, Some s) \<in>
            set (map (\<lambda>i. open_single_store (store_names ! i) (task_result i)) completed)}
         = succeeded task_result store_names"
  using assms
  by (auto simp: succeeded_def open_single_store_def split: sum.splits) force

text \<open>
  C9, as the code has it. Let every task complete exactly once and the worker count be
  positive. Then the batch call raises nothing, whatever the tasks raised; the keys of
  the returned dict are exactly the names for which some task returned a session; every
  value is a session some task for that key returned; and when the names are pairwise
  distinct, the name of a task that raised is absent and the name of a task that
  returned a session is mapped to that session.
\<close>

theorem batch_returns_the_names_that_succeeded:
  assumes perm: "set completed = {..<length store_names}" "distinct completed"
    and mw: "0 < max_workers"
  shows "\<exists>sessions.
           open_stores_by_names task_result completed store_names max_workers = Inr sessions
       \<and> dom sessions = succeeded task_result store_names
       \<and> (\<forall>name s. sessions name = Some s \<longrightarrow>
            (\<exists>i < length store_names. store_names ! i = name \<and> task_result i = Inr s))
       \<and> (distinct store_names \<longrightarrow>
            (\<forall>i < length store_names.
               (case task_result i of
                  Inl e \<Rightarrow> sessions (store_names ! i) = None
                | Inr s \<Rightarrow> sessions (store_names ! i) = Some s)))"
proof -
  let ?rs = "map (\<lambda>i. open_single_store (store_names ! i) (task_result i)) completed"
  let ?m = "collect ?rs Map.empty"
  have r: "open_stores_by_names task_result completed store_names max_workers = Inr ?m"
    using mw by (simp add: open_stores_by_names_def)
  have d: "dom ?m = succeeded task_result store_names"
    using names_with_session[OF perm(1), of task_result] by (simp add: dom_collect)
  have v: "\<exists>i < length store_names. store_names ! i = name \<and> task_result i = Inr s"
    if "?m name = Some s" for name s
  proof -
    from collect_value[OF that] have "(name, Some s) \<in> set ?rs" by simp
    then obtain i where "i \<in> set completed"
      "open_single_store (store_names ! i) (task_result i) = (name, Some s)"
      by auto
    then show ?thesis using perm(1)
      by (auto simp: open_single_store_def split: sum.splits)
  qed
  have k: "(case task_result i of
                  Inl e \<Rightarrow> ?m (store_names ! i) = None
                | Inr s \<Rightarrow> ?m (store_names ! i) = Some s)"
    if dn: "distinct store_names" and i: "i < length store_names" for i
  proof -
    have fo: "fst (open_single_store n r) = n" for n and r :: "error + 's"
      by (simp add: open_single_store_def split: sum.splits)
    have fs: "map fst ?rs = map ((!) store_names) completed"
      by (simp add: fo comp_def)
    have "inj_on ((!) store_names) (set completed)"
      using dn perm(1) by (auto simp: inj_on_def nth_eq_iff_index_eq)
    then have "distinct (map ((!) store_names) completed)"
      using perm(2) by (simp add: distinct_map)
    then have dr: "distinct (map fst ?rs)"
      by (simp only: fs)
    show ?thesis
    proof (cases "task_result i")
      case (Inr s)
      have "(store_names ! i, Some s) \<in> set ?rs"
        using i perm(1) Inr by (force simp: open_single_store_def)
      from collect_distinct[OF dr this] Inr show ?thesis by simp
    next
      case (Inl e)
      have "?m (store_names ! i) = None"
      proof (rule ccontr)
        assume "?m (store_names ! i) \<noteq> None"
        then obtain s where "?m (store_names ! i) = Some s" by auto
        from v[OF this] obtain j where j: "j < length store_names"
          "store_names ! j = store_names ! i" "task_result j = Inr s" by auto
        with dn i have "j = i" by (simp add: nth_eq_iff_index_eq)
        with j Inl show False by simp
      qed
      with Inl show ?thesis by simp
    qed
  qed
  show ?thesis using r d v k by blast
qed


lemma abc_outcomes:
  "map isl (run_in_order (world_with (always (Parsed (JDict started_reply))))
      (manager_with 3 (Some abc_listing)) [''A'', ''B'', ''C''] True no_options) =
   [False, True, False]"
  by code_simp

lemma abc_isl: "\<not> isl (abc_results 0) \<and> isl (abc_results 1) \<and> \<not> isl (abc_results 2)"
proof -
  define l where "l = run_in_order (world_with (always (Parsed (JDict started_reply))))
      (manager_with 3 (Some abc_listing)) [''A'', ''B'', ''C''] True no_options"
  have m: "map isl l = [False, True, False]"
    unfolding l_def by (rule abc_outcomes)
  have len: "length l = 3"
    using arg_cong[OF m, of length] by simp
  have n: "isl (l ! i) = [False, True, False] ! i" if "i < 3" for i
    using that len nth_map[of i l isl] by (simp add: m)
  have r: "abc_results i = l ! i" for i
    by (simp only: abc_results_def l_def)
  from n[of 0] n[of 1] n[of 2] show ?thesis
    by (simp add: r)
qed

lemma abc_succeeded: "succeeded abc_results [''A'', ''B'', ''C''] = {''A'', ''C''}"
proof -
  have e: "(\<exists>s. x = Inr s) \<longleftrightarrow> \<not> isl x" for x :: "error + store_manager browser_session"
    by (cases x) auto
  have "succeeded abc_results [''A'', ''B'', ''C''] =
     {[''A'', ''B'', ''C''] ! i | i. i < Suc (Suc (Suc 0)) \<and> \<not> isl (abc_results i)}"
    by (simp add: succeeded_def e)
  also have "\<dots> = {''A'', ''C''}"
  proof (intro set_eqI iffI)
    fix x
    assume "x \<in> {[''A'', ''B'', ''C''] ! i | i. i < Suc (Suc (Suc 0)) \<and> \<not> isl (abc_results i)}"
    then obtain i where i: "x = [''A'', ''B'', ''C''] ! i" "i < Suc (Suc (Suc 0))"
      "\<not> isl (abc_results i)" by auto
    from i(2) have "i = 0 \<or> i = 1 \<or> i = 2" by auto
    with i(1,3) abc_isl show "x \<in> {''A'', ''C''}" by auto
  next
    fix x
    assume "x \<in> {''A'', ''C''}"
    then consider "x = ''A''" | "x = ''C''" by auto
    then show "x \<in> {[''A'', ''B'', ''C''] ! i | i. i < Suc (Suc (Suc 0)) \<and> \<not> isl (abc_results i)}"
    proof cases
      case 1
      have "x = [''A'', ''B'', ''C''] ! 0 \<and> 0 < Suc (Suc (Suc 0)) \<and> \<not> isl (abc_results 0)"
        using 1 abc_isl by simp
      then show ?thesis by blast
    next
      case 2
      have "x = [''A'', ''B'', ''C''] ! 2 \<and> 2 < Suc (Suc (Suc 0)) \<and> \<not> isl (abc_results 2)"
        using 2 abc_isl by simp
      then show ?thesis by blast
    qed
  qed
  finally show ?thesis .
qed

theorem batch_returns_the_names_that_succeeded_witness:
  "(0::int) < 1
   \<and> \<not> isl (open_stores_by_names abc_results [0, 1, 2] [''A'', ''B'', ''C''] 1)
   \<and> dom (projr (open_stores_by_names abc_results [0, 1, 2] [''A'', ''B'', ''C''] 1)) =
       {''A'', ''C''}"
proof -
  have p: "set [0, 1, 2] = {..<length [''A'', ''B'', ''C'']}" by auto
  have d: "distinct [0::nat, 1, 2]" by simp
  have w: "(0::int) < 1" by simp
  from batch_returns_the_names_that_succeeded[OF p d w, of abc_results]
  obtain sessions where
    "open_stores_by_names abc_results [0, 1, 2] [''A'', ''B'', ''C''] 1 = Inr sessions"
    "dom sessions = succeeded abc_results [''A'', ''B'', ''C'']"
    by auto
  then show ?thesis by (simp add: abc_succeeded)
qed

text \<open>
  C9 as stated fails when a name is listed twice: of the two tasks for A the first
  returns a session and the second raises, and A is a key of the returned dict,
  so the name of a task that raised is not absent.
\<close>

theorem raised_task_name_present_counterexample:
  "dup_results 1 = Inl (CommunicationError ConnectFailed)
   \<and> open_stores_by_names dup_results [0, 1] [''A'', ''A''] 3 = Inr [''A'' \<mapsto> 7]"
  by (simp add: dup_results_def open_stores_by_names_def open_single_store_def)

end
